theory Spec2Isabelle
  imports Complex_Main
begin

section \<open>JavaScript bigint arithmetic used by the scripts\<close>

text \<open>
  Every amount the scripts compute with is a JavaScript \<open>bigint\<close>: an unbounded integer.
  The operator \<open>/\<close> on bigints truncates towards zero and throws a \<open>RangeError\<close> when
  the divisor is \<open>0n\<close>.  The exception is a value of the model.
\<close>

datatype js_error = RangeError | UnsupportedDecimals

definition bigint_div :: "int \<Rightarrow> int \<Rightarrow> js_error + int" where
  "bigint_div a b =
     (if b = 0 then Inl RangeError
      else Inr (sgn a * sgn b * (\<bar>a\<bar> div \<bar>b\<bar>)))"

text \<open>
  \<open>parseUnits("1", d)\<close> of the viem library, the only way the scripts call it in their
  arithmetic: the integer \<open>10 ^ d\<close>.  The library is not part of the repository; a
  negative decimal count is outside its contract and is reported as
  \<open>UnsupportedDecimals\<close> rather than given a value.
\<close>

definition parseUnits_one :: "int \<Rightarrow> js_error + int" where
  "parseUnits_one d = (if d < 0 then Inl UnsupportedDecimals else Inr (10 ^ nat d))"

text \<open>
  \<open>const decimalAdjustment = 36 + loanToken.decimals - collateralToken.decimals\<close>
  (liquidate.ts, readOracle.ts and the other scripts): plain number arithmetic.
\<close>

definition decimalAdjustment :: "int \<Rightarrow> int \<Rightarrow> int" where
  "decimalAdjustment loanTokenDecimals collateralTokenDecimals =
     36 + loanTokenDecimals - collateralTokenDecimals"


section \<open>The fixed-point vocabulary of the specification\<close>

text \<open>
  The specification phrases every formula with \<open>mulDivDown\<close> and \<open>mulDivUp\<close>
  (section 4.1: floor and ceiling of \<open>a * b / c\<close>, \<open>DivisionByZero\<close> for \<open>c = 0\<close>) and
  the scale \<open>WAD\<close>.  The scripts have no such functions; these definitions follow the
  specification's words and are what the code is compared with.
\<close>

datatype spec_error = DivisionByZero

definition WAD :: int where
  "WAD = 10 ^ 18"

definition mulDivDown :: "int \<Rightarrow> int \<Rightarrow> int \<Rightarrow> spec_error + int" where
  "mulDivDown a b c = (if c = 0 then Inl DivisionByZero else Inr ((a * b) div c))"

definition mulDivUp :: "int \<Rightarrow> int \<Rightarrow> int \<Rightarrow> spec_error + int" where
  "mulDivUp a b c = (if c = 0 then Inl DivisionByZero else Inr (- ((- (a * b)) div c)))"

text \<open>
  The oracle conversions of section 4.2 at a canonical scale of \<open>scale_digits\<close> fractional
  digits; both round down.
\<close>

definition toLoanAssets :: "int \<Rightarrow> int \<Rightarrow> nat \<Rightarrow> spec_error + int" where
  "toLoanAssets collateralAmount price scale_digits =
     mulDivDown collateralAmount price (10 ^ scale_digits)"

definition toCollateralAmount :: "int \<Rightarrow> int \<Rightarrow> nat \<Rightarrow> spec_error + int" where
  "toCollateralAmount loanAssets price scale_digits =
     mulDivDown loanAssets (10 ^ scale_digits) price"


section \<open>Share-to-asset conversions\<close>

text \<open>liquidate.ts, \<open>calculateBorrowAssets\<close>.\<close>

definition calculateBorrowAssets :: "int \<Rightarrow> int \<Rightarrow> int \<Rightarrow> js_error + int" where
  "calculateBorrowAssets borrowShares totalBorrowShares totalBorrowAssets =
     (if totalBorrowShares = 0 then Inr 0
      else bigint_div (borrowShares * totalBorrowAssets) totalBorrowShares)"

text \<open>repayDebt.ts, \<open>calculateCurrentDebt\<close> (an async function: the promise resolves to the value).\<close>

definition calculateCurrentDebt :: "int \<Rightarrow> int \<Rightarrow> int \<Rightarrow> js_error + int" where
  "calculateCurrentDebt borrowShares totalBorrowShares totalBorrowAssets =
     (if totalBorrowShares = 0 then Inr 0
      else bigint_div (borrowShares * totalBorrowAssets) totalBorrowShares)"

text \<open>withdrawLoanTokensFromMarket.ts, \<open>calculateSupplyAssets\<close> (async as well).\<close>

definition calculateSupplyAssets :: "int \<Rightarrow> int \<Rightarrow> int \<Rightarrow> js_error + int" where
  "calculateSupplyAssets supplyShares totalSupplyShares totalSupplyAssets =
     (if totalSupplyShares = 0 then Inr 0
      else bigint_div (supplyShares * totalSupplyAssets) totalSupplyShares)"

text \<open>updateWithdrawQueueToVault.ts, \<open>calculateUserAssets\<close>.\<close>

definition calculateUserAssets :: "int \<Rightarrow> int \<Rightarrow> int \<Rightarrow> js_error + int" where
  "calculateUserAssets userShares totalShares totalAssets =
     (if totalShares = 0 then Inr 0
      else bigint_div (userShares * totalAssets) totalShares)"


section \<open>Liquidation arithmetic of liquidate.ts\<close>

text \<open>
  \<open>isLiquidatable\<close>.  The divisor \<open>parseUnits("1", 18)\<close> is a literal call, so the
  division cannot throw; the model keeps the exception path all the same.
\<close>

definition isLiquidatable :: "int \<Rightarrow> int \<Rightarrow> int \<Rightarrow> js_error + bool" where
  "isLiquidatable collateralValue borrowValue lltv =
     (if borrowValue = 0 then Inr False
      else case parseUnits_one 18 of
             Inl e \<Rightarrow> Inl e
           | Inr one \<Rightarrow>
               (case bigint_div (collateralValue * lltv) one of
                  Inl e \<Rightarrow> Inl e
                | Inr maxBorrowValue \<Rightarrow> Inr (borrowValue > maxBorrowValue)))"

text \<open>
  The collateral value in loan-token units, computed inline by \<open>liquidatePosition\<close>
  (lines 284-286) and repeated by \<open>calculateMaxLiquidation\<close> (lines 166-167).
\<close>

definition collateralValueInLoanToken :: "int \<Rightarrow> int \<Rightarrow> int \<Rightarrow> int \<Rightarrow> js_error + int" where
  "collateralValueInLoanToken collateral oraclePrice loanTokenDecimals collateralTokenDecimals =
     (case parseUnits_one (decimalAdjustment loanTokenDecimals collateralTokenDecimals) of
        Inl e \<Rightarrow> Inl e
      | Inr one \<Rightarrow> bigint_div (collateral * oraclePrice) one)"


text \<open>
  The first statement of \<open>calculateHealthFactor\<close> (liquidate.ts and
  updateWithdrawQueueToVault.ts, the same text in both):
  \<open>(collateralValue * lltv) / parseUnits("1", 18)\<close>, the numerator of the health factor.
\<close>

definition maxBorrowValue :: "int \<Rightarrow> int \<Rightarrow> js_error + int" where
  "maxBorrowValue collateralValue lltv =
     (case parseUnits_one 18 of
        Inl e \<Rightarrow> Inl e
      | Inr one \<Rightarrow> bigint_div (collateralValue * lltv) one)"








text \<open>
  \<open>calculateMaxLiquidation\<close>.  The result record keeps the two amounts; the third field
  of the source, \<open>liquidationIncentive\<close>, is the number literal \<open>1.05\<close> and is only
  printed.  The arithmetic uses \<open>BigInt(Math.floor(liquidationIncentive * 1000))\<close>, which
  is \<open>1050n\<close>, over \<open>1000n\<close>.  The parameter \<open>lltv\<close> is not used by the body.
\<close>

record max_liquidation =
  maxSeizedAssets :: int
  maxRepaidAssets :: int

definition liquidationIncentiveMilli :: int where
  "liquidationIncentiveMilli = 1050"

definition calculateMaxLiquidation ::
  "int \<Rightarrow> int \<Rightarrow> int \<Rightarrow> int \<Rightarrow> int \<Rightarrow> int \<Rightarrow> js_error + max_liquidation" where
  "calculateMaxLiquidation collateral borrowAssets oraclePrice loanTokenDecimals
       collateralTokenDecimals lltv =
     (case parseUnits_one (decimalAdjustment loanTokenDecimals collateralTokenDecimals) of
        Inl e \<Rightarrow> Inl e
      | Inr one \<Rightarrow>
     (case bigint_div (collateral * oraclePrice) one of
        Inl e \<Rightarrow> Inl e
      | Inr collateralValue \<Rightarrow>
     (case bigint_div borrowAssets 2 of
        Inl e \<Rightarrow> Inl e
      | Inr maxRepaid \<Rightarrow>
     (case bigint_div (maxRepaid * liquidationIncentiveMilli) 1000 of
        Inl e \<Rightarrow> Inl e
      | Inr repaidValueWithIncentive \<Rightarrow>
     (case bigint_div (repaidValueWithIncentive * one) oraclePrice of
        Inl e \<Rightarrow> Inl e
      | Inr maxSeized \<Rightarrow>
          Inr \<lparr> maxSeizedAssets = (if maxSeized > collateral then collateral else maxSeized),
                maxRepaidAssets = maxRepaid \<rparr>)))))"


section \<open>The liquidation script, \<open>liquidatePosition\<close>\<close>

text \<open>
  Everything the script reads is an input of the model: the market totals, the
  borrower's position, the market's LLTV, the two decimal counts, the oracle price, the
  environment settings, the answers typed at the two prompts, and the liquidator's
  balance and allowance.  \<open>lq_seizedAssets\<close> and \<open>lq_repaidShares\<close> are \<open>None\<close> when the
  environment string is \<open>"0"\<close> and otherwise hold the amount \<open>parseUnits\<close> returns for it.
  The model starts where the script has fetched its data (line 254) and ends with the
  call of the market contract; the health factor, the profit estimate and every other
  printed number have no influence on the control flow and are left out.
\<close>

record liquidation_request =
  lq_totalBorrowAssets :: int
  lq_totalBorrowShares :: int
  lq_borrowShares :: int
  lq_collateral :: int
  lq_lltv :: int
  lq_loanDecimals :: int
  lq_collateralDecimals :: int
  lq_oraclePrice :: int
  lq_maxLiquidation :: bool
  lq_seizedAssets :: "int option"
  lq_repaidShares :: "int option"
  lq_useMax :: bool
  lq_liquidatorBalance :: int
  lq_confirm :: bool
  lq_allowance :: int

text \<open>
  How a run ends.  \<open>Threw\<close> is an exception caught by the script's outer handler, with
  the approval sent before it, if any; \<open>Liquidated\<close> is the call
  \<open>liquidate(marketParams, borrower, seizedAssets, repaidShares, "0x")\<close>, again with the
  approval that preceded it.
\<close>

datatype liquidation_outcome =
    NoPosition
  | NotLiquidatable
  | NoAmounts
  | InsufficientBalance
  | Declined
  | Threw js_error "int option"
  | Liquidated "int option" int int

text \<open>Lines 336-372: the amounts asked for; \<open>None\<close> when the run is cancelled at the prompt.\<close>

definition requestedAmounts ::
  "liquidation_request \<Rightarrow> max_liquidation \<Rightarrow> js_error + (int \<times> int) option" where
  "requestedAmounts rq mx =
     (if lq_maxLiquidation rq then Inr (Some (maxSeizedAssets mx, maxRepaidAssets mx))
      else if lq_seizedAssets rq = None \<and> lq_repaidShares rq = None then
        (if lq_useMax rq then Inr (Some (maxSeizedAssets mx, maxRepaidAssets mx))
         else Inr None)
      else
        (let seized = (case lq_seizedAssets rq of
                         Some v \<Rightarrow> v
                       | None \<Rightarrow> maxSeizedAssets mx)
         in case lq_repaidShares rq of
              Some shares \<Rightarrow>
                (case calculateBorrowAssets shares (lq_totalBorrowShares rq)
                        (lq_totalBorrowAssets rq) of
                   Inl e \<Rightarrow> Inl e
                 | Inr repaid \<Rightarrow> Inr (Some (seized, repaid)))
            | None \<Rightarrow> Inr (Some (seized, maxRepaidAssets mx))))"

text \<open>Lines 374-383, "Validate liquidation amounts".\<close>

definition validateAmounts :: "int \<times> int \<Rightarrow> max_liquidation \<Rightarrow> int \<times> int" where
  "validateAmounts amounts mx =
     (let seized = (if fst amounts > maxSeizedAssets mx then maxSeizedAssets mx
                    else fst amounts);
          repaid = (if snd amounts > maxRepaidAssets mx then maxRepaidAssets mx
                    else snd amounts)
      in (seized, repaid))"

text \<open>
  Lines 385-466: balance check, confirmation (\<open>validateLiquidation\<close> is always true),
  approval when the allowance is short, conversion of the repaid assets back to shares,
  and the contract call.
\<close>

definition executeLiquidation :: "liquidation_request \<Rightarrow> int \<times> int \<Rightarrow> liquidation_outcome" where
  "executeLiquidation rq amounts =
     (let seized = fst amounts; repaid = snd amounts
      in if lq_liquidatorBalance rq < repaid then InsufficientBalance
         else if \<not> lq_confirm rq then Declined
         else
           (let approval = (if lq_allowance rq < repaid then Some repaid else None)
            in case bigint_div (repaid * lq_totalBorrowShares rq) (lq_totalBorrowAssets rq) of
                 Inl e \<Rightarrow> Threw e approval
               | Inr repaidSharesForCall \<Rightarrow> Liquidated approval seized repaidSharesForCall))"

definition liquidatePosition :: "liquidation_request \<Rightarrow> liquidation_outcome" where
  "liquidatePosition rq =
     (case calculateBorrowAssets (lq_borrowShares rq) (lq_totalBorrowShares rq)
             (lq_totalBorrowAssets rq) of
        Inl e \<Rightarrow> Threw e None
      | Inr borrowAssets \<Rightarrow>
          if lq_borrowShares rq = 0 \<or> lq_collateral rq = 0 then NoPosition
          else
     (case collateralValueInLoanToken (lq_collateral rq) (lq_oraclePrice rq)
             (lq_loanDecimals rq) (lq_collateralDecimals rq) of
        Inl e \<Rightarrow> Threw e None
      | Inr collateralValue \<Rightarrow>
     (case isLiquidatable collateralValue borrowAssets (lq_lltv rq) of
        Inl e \<Rightarrow> Threw e None
      | Inr liquidatable \<Rightarrow>
          if \<not> liquidatable then NotLiquidatable
          else
     (case calculateMaxLiquidation (lq_collateral rq) borrowAssets (lq_oraclePrice rq)
             (lq_loanDecimals rq) (lq_collateralDecimals rq) (lq_lltv rq) of
        Inl e \<Rightarrow> Threw e None
      | Inr mx \<Rightarrow>
     (case requestedAmounts rq mx of
        Inl e \<Rightarrow> Threw e None
      | Inr None \<Rightarrow> NoAmounts
      | Inr (Some amounts) \<Rightarrow> executeLiquidation rq (validateAmounts amounts mx))))))"


section \<open>Guards common to the market scripts\<close>

text \<open>
  The errors the scripts throw themselves.  The first three are thrown before the
  \<open>try\<close> block, when an environment setting is missing, and end the process with exit
  code 1.  \<open>InvalidMarketParameters\<close> is thrown inside it, once \<open>idToMarketParams\<close> has
  been read, and is caught by the script's outer handler.
\<close>

datatype script_error =
    MorphoAddressRequired
  | MarketIdRequired
  | AmountRequired
  | InvalidMarketParameters

text \<open>
  The result of \<open>idToMarketParams\<close>.  An address is a string; a value that is missing and
  the empty string are both falsy, and both are the empty string here.  For an unknown
  market id the contract returns zero addresses, which are non-empty strings, and an
  LLTV of \<open>0n\<close>.
\<close>

record market_params =
  mp_loanToken :: string
  mp_collateralToken :: string
  mp_oracle :: string
  mp_irm :: string
  mp_lltv :: int

text \<open>
  The test \<open>!loanToken || !collateralToken || !oracle || !irm || !lltv\<close> of
  withdrawLoanTokensFromMarket.ts (lines 175-177) and of the supply script (lines
  159-161); a bigint is falsy when it is \<open>0n\<close>.
\<close>

definition invalidMarketParameters :: "market_params \<Rightarrow> bool" where
  "invalidMarketParameters mp =
     (mp_loanToken mp = [] \<or> mp_collateralToken mp = [] \<or> mp_oracle mp = [] \<or>
      mp_irm mp = [] \<or> mp_lltv mp = 0)"


section \<open>The withdrawal script, \<open>withdrawFromMarket\<close>\<close>









section \<open>The supply script, \<open>supplyToMarket\<close>\<close>

text \<open>Lines 243-251, "Calculate expected shares to receive".\<close>

definition expectedShares :: "int \<Rightarrow> int \<Rightarrow> int \<Rightarrow> js_error + int" where
  "expectedShares supplyAmount totalSupplyAssets totalSupplyShares =
     (if totalSupplyAssets > 0 \<and> totalSupplyShares > 0
      then bigint_div (supplyAmount * totalSupplyShares) totalSupplyAssets
      else Inr supplyAmount)"

text \<open>
  Inputs: the settings \<open>MORPHO_ADDRESS\<close> and \<open>MARKET_ID\<close>, the market parameters and
  totals, the amount (\<open>None\<close> when \<open>SUPPLY_AMOUNT\<close> is the string \<open>"0"\<close>, otherwise what
  \<open>parseUnits\<close> returns for it), the caller's balance and allowance and the answer at
  the prompt.  The run ends with the call \<open>supply(marketParams, assets, 0, onBehalf,
  "0x")\<close>.  \<open>Supplied\<close> carries the approval sent before the call, if any, the assets
  supplied and the expected shares printed.
\<close>

record supply_request =
  sp_morphoAddress :: string
  sp_marketId :: string
  sp_marketParams :: market_params
  sp_totalSupplyAssets :: int
  sp_totalSupplyShares :: int
  sp_supplyAmount :: "int option"
  sp_userBalance :: int
  sp_confirm :: bool
  sp_allowance :: int

datatype supply_outcome =
    SupplyFailed script_error
  | SupplyInsufficientBalance
  | SupplyThrew js_error
  | SupplyDeclined
  | Supplied "int option" int int

text \<open>\<open>parseUnits(supplyAmount, tokenDecimals)\<close>; the string \<open>"0"\<close> parses to \<open>0n\<close>.\<close>

definition supplyAmountBigInt :: "supply_request \<Rightarrow> int" where
  "supplyAmountBigInt rq = (case sp_supplyAmount rq of None \<Rightarrow> 0 | Some v \<Rightarrow> v)"

text \<open>
  The whole function: the three checks of the settings (lines 124-132), the check of
  the market parameters (lines 159-161), the balance check (line 238), the expected
  shares, the confirmation, the approval when the allowance is short, and the call.
\<close>

definition supplyToMarket :: "supply_request \<Rightarrow> supply_outcome" where
  "supplyToMarket rq =
     (if sp_morphoAddress rq = [] then SupplyFailed MorphoAddressRequired
      else if sp_marketId rq = [] then SupplyFailed MarketIdRequired
      else if sp_supplyAmount rq = None then SupplyFailed AmountRequired
      else if invalidMarketParameters (sp_marketParams rq)
        then SupplyFailed InvalidMarketParameters
      else if sp_userBalance rq < supplyAmountBigInt rq then SupplyInsufficientBalance
      else case expectedShares (supplyAmountBigInt rq) (sp_totalSupplyAssets rq)
                  (sp_totalSupplyShares rq) of
             Inl e \<Rightarrow> SupplyThrew e
           | Inr shares \<Rightarrow>
               if \<not> sp_confirm rq then SupplyDeclined
               else Supplied (if sp_allowance rq < supplyAmountBigInt rq
                              then Some (supplyAmountBigInt rq) else None)
                      (supplyAmountBigInt rq) shares)"

text \<open>
  Modelled from the spec: the ledger update of \<open>supply\<close> (section 4.4, "Increases both
  totals").  The script only submits the call and reads the totals back; they are
  changed by the market contract, which is not part of the repository.
\<close>

record supply_pool =
  totalSupplyAssets :: int
  totalSupplyShares :: int

definition supply_totals :: "supply_pool \<Rightarrow> int \<Rightarrow> int \<Rightarrow> supply_pool" where
  "supply_totals pool assets shares =
     \<lparr> totalSupplyAssets = totalSupplyAssets pool + assets,
       totalSupplyShares = totalSupplyShares pool + shares \<rparr>"


section \<open>Sample runs\<close>

text \<open>
  A liquidation request that asks for more than the bounds allow.  The borrower owes
  1000 against 1000 of collateral at a price of 1:1 and an LLTV of 0.8, so the position
  is liquidatable with \<open>maxRepaidAssets = 500\<close> and \<open>maxSeizedAssets = 525\<close>; the
  liquidator asks to seize 900 and to repay 800 shares, which are 800 assets.
\<close>

definition over_request :: liquidation_request where
  "over_request =
     \<lparr> lq_totalBorrowAssets = 1000, lq_totalBorrowShares = 1000, lq_borrowShares = 1000,
       lq_collateral = 1000, lq_lltv = 800000000000000000, lq_loanDecimals = 18,
       lq_collateralDecimals = 18, lq_oraclePrice = 10 ^ 36, lq_maxLiquidation = False,
       lq_seizedAssets = Some 900, lq_repaidShares = Some 800, lq_useMax = False,
       lq_liquidatorBalance = 10000, lq_confirm = True, lq_allowance = 0 \<rparr>"

text \<open>The parameters of an existing market, with an LLTV of 0.8.\<close>

definition sample_market :: market_params where
  "sample_market =
     \<lparr> mp_loanToken = ''0xA1'', mp_collateralToken = ''0xB2'', mp_oracle = ''0xC3'',
       mp_irm = ''0xD4'', mp_lltv = 800000000000000000 \<rparr>"



text \<open>
  The market before its first deposit; a deposit of 100 into a pool of 333 assets and
  100 shares; and a deposit of 7 into a pool that has 5 shares and no assets.
\<close>

definition empty_pool :: supply_pool where
  "empty_pool = \<lparr> totalSupplyAssets = 0, totalSupplyShares = 0 \<rparr>"

definition second_deposit :: supply_request where
  "second_deposit =
     \<lparr> sp_morphoAddress = ''0xE5'', sp_marketId = ''0xF6'', sp_marketParams = sample_market,
       sp_totalSupplyAssets = 333, sp_totalSupplyShares = 100, sp_supplyAmount = Some 100,
       sp_userBalance = 100, sp_confirm = True, sp_allowance = 0 \<rparr>"

definition drained_deposit :: supply_request where
  "drained_deposit =
     \<lparr> sp_morphoAddress = ''0xE5'', sp_marketId = ''0xF6'', sp_marketParams = sample_market,
       sp_totalSupplyAssets = 0, sp_totalSupplyShares = 5, sp_supplyAmount = Some 7,
       sp_userBalance = 7, sp_confirm = True, sp_allowance = 7 \<rparr>"


section \<open>Basic facts about bigint division\<close>

text \<open>On non-negative dividends and positive divisors truncation is the floor.\<close>

lemma bigint_div_nonneg:
  "0 \<le> a \<Longrightarrow> 0 < b \<Longrightarrow> bigint_div a b = Inr (a div b)"
  by (simp add: bigint_div_def sgn_if)

lemma bigint_div_error_iff: "(bigint_div a b = Inl e) = (b = 0 \<and> e = RangeError)"
  by (auto simp add: bigint_div_def)

lemma parseUnits_one_18: "parseUnits_one 18 = Inr WAD"
  by (simp add: parseUnits_one_def WAD_def)

lemma bigint_div_total: "b \<noteq> 0 \<Longrightarrow> \<exists>v. bigint_div a b = Inr v"
  by (simp add: bigint_div_def)

lemma bigint_div_floor:
  "0 \<le> a \<Longrightarrow> 0 < b \<Longrightarrow> bigint_div a b = Inr \<lfloor>real_of_int a / real_of_int b\<rfloor>"
  by (simp add: bigint_div_nonneg floor_divide_of_int_eq)


section \<open>Liquidatability is a strict comparison\<close>

text \<open>
  Claim C1.  With \<open>maxBorrowValue = mulDivDown(collateralValue, lltv, WAD)\<close>, the
  predicate \<open>isLiquidatable\<close> answers exactly whether the debt is strictly greater than
  \<open>maxBorrowValue\<close>, for every non-negative collateral value and LLTV and every debt.  A
  debt equal to the threshold is not liquidatable: with LLTV 0.8 and collateral value
  1000 a debt of 800 is healthy and a debt of 801 is liquidatable.
\<close>

theorem isLiquidatable_strict:
  assumes "0 \<le> collateralValue" and "0 \<le> lltv"
  shows "\<exists>threshold.
           mulDivDown collateralValue lltv WAD = Inr threshold \<and>
           isLiquidatable collateralValue debt lltv = Inr (debt > threshold)"
proof -
  have nn: "0 \<le> collateralValue * lltv" using assms by simp
  have wad: "0 < WAD" by (simp add: WAD_def)
  have m: "mulDivDown collateralValue lltv WAD = Inr ((collateralValue * lltv) div WAD)"
    using wad by (simp add: mulDivDown_def)
  have d: "bigint_div (collateralValue * lltv) WAD = Inr ((collateralValue * lltv) div WAD)"
    using nn wad by (rule bigint_div_nonneg)
  have ge: "0 \<le> (collateralValue * lltv) div WAD"
    using nn wad by (simp add: pos_imp_zdiv_nonneg_iff)
  show ?thesis
  proof (cases "debt = 0")
    case True
    with ge m show ?thesis by (simp add: isLiquidatable_def)
  next
    case False
    with m d show ?thesis by (simp add: isLiquidatable_def parseUnits_one_18)
  qed
qed

theorem isLiquidatable_strict_witness:
  "isLiquidatable 1000 800 800000000000000000 = Inr False \<and>
   isLiquidatable 1000 801 800000000000000000 = Inr True"
  using isLiquidatable_strict [of 1000 800000000000000000 800]
        isLiquidatable_strict [of 1000 800000000000000000 801]
  by (simp add: mulDivDown_def WAD_def)


section \<open>The current debt rounds down\<close>

text \<open>
  Claim C2 says that the debt of a position is its borrow shares converted to assets
  rounding up.  Both \<open>calculateBorrowAssets\<close> and \<open>calculateCurrentDebt\<close> divide with
  the bigint operator, which truncates: one share out of two, over three assets, is a
  debt of 1 where the ceiling is 2.
\<close>

theorem currentDebt_rounds_up_counterexample:
  "mulDivUp 1 3 2 = Inr 2 \<and>
   calculateBorrowAssets 1 2 3 = Inr 1 \<and>
   calculateCurrentDebt 1 2 3 = Inr 1"
  by (simp add: mulDivUp_def calculateBorrowAssets_def calculateCurrentDebt_def bigint_div_def)

text \<open>
  Claim C2, as amended.  For every position with \<open>borrowShares > 0\<close> in a market with
  \<open>totalBorrowShares > 0\<close>, the current debt is the borrow shares converted to assets
  rounding down: \<open>mulDivDown(borrowShares, totalBorrowAssets, totalBorrowShares)\<close>, the
  floor of \<open>borrowShares * totalBorrowAssets / totalBorrowShares\<close>, in both scripts.
\<close>

theorem currentDebt_rounds_down:
  assumes "0 < borrowShares" and "0 < totalBorrowShares" and "0 \<le> totalBorrowAssets"
  shows "\<exists>debt.
           mulDivDown borrowShares totalBorrowAssets totalBorrowShares = Inr debt \<and>
           debt = \<lfloor>real_of_int (borrowShares * totalBorrowAssets) /
                    real_of_int totalBorrowShares\<rfloor> \<and>
           calculateBorrowAssets borrowShares totalBorrowShares totalBorrowAssets = Inr debt \<and>
           calculateCurrentDebt borrowShares totalBorrowShares totalBorrowAssets = Inr debt"
proof -
  have nn: "0 \<le> borrowShares * totalBorrowAssets" using assms by simp
  have d: "bigint_div (borrowShares * totalBorrowAssets) totalBorrowShares =
           Inr ((borrowShares * totalBorrowAssets) div totalBorrowShares)"
    using nn assms(2) by (rule bigint_div_nonneg)
  show ?thesis
    using d assms(2)
    by (simp add: mulDivDown_def calculateBorrowAssets_def calculateCurrentDebt_def
          floor_divide_of_int_eq del: of_int_mult)
qed

theorem currentDebt_rounds_down_witness:
  "calculateBorrowAssets 500 500 550 = Inr 550 \<and>
   calculateCurrentDebt 500 500 550 = Inr 550 \<and>
   calculateBorrowAssets 1 2 3 = Inr 1"
  using currentDebt_rounds_down [of 500 500 550] currentDebt_rounds_down [of 1 2 3]
  by (simp add: mulDivDown_def)


section \<open>No division when the pool has no shares\<close>

text \<open>
  Claim C10.  Every share-to-asset conversion (\<open>calculateBorrowAssets\<close>,
  \<open>calculateCurrentDebt\<close>, \<open>calculateSupplyAssets\<close>, \<open>calculateUserAssets\<close>) returns 0
  when the pool's total shares are 0, whatever the shares and the total assets are, and
  none of them ever throws: the guard comes before the division, so the division is
  only reached with a divisor different from 0.
\<close>

theorem zero_total_shares_returns_zero:
  "calculateBorrowAssets shares 0 totalAssets = Inr 0 \<and>
   calculateCurrentDebt shares 0 totalAssets = Inr 0 \<and>
   calculateSupplyAssets shares 0 totalAssets = Inr 0 \<and>
   calculateUserAssets shares 0 totalAssets = Inr 0 \<and>
   (\<exists>v. calculateBorrowAssets shares totalShares totalAssets = Inr v) \<and>
   (\<exists>v. calculateCurrentDebt shares totalShares totalAssets = Inr v) \<and>
   (\<exists>v. calculateSupplyAssets shares totalShares totalAssets = Inr v) \<and>
   (\<exists>v. calculateUserAssets shares totalShares totalAssets = Inr v)"
proof -
  have zero:
    "calculateBorrowAssets shares 0 totalAssets = Inr 0"
    "calculateCurrentDebt shares 0 totalAssets = Inr 0"
    "calculateSupplyAssets shares 0 totalAssets = Inr 0"
    "calculateUserAssets shares 0 totalAssets = Inr 0"
    by (simp_all add: calculateBorrowAssets_def calculateCurrentDebt_def
          calculateSupplyAssets_def calculateUserAssets_def)
  have guarded: "\<exists>v. (if totalShares = 0 then Inr 0
                       else bigint_div (shares * totalAssets) totalShares) = Inr v"
  proof (cases "totalShares = 0")
    case True
    then show ?thesis by simp
  next
    case False
    then show ?thesis using bigint_div_total by simp
  qed
  have returns:
    "\<exists>v. calculateBorrowAssets shares totalShares totalAssets = Inr v"
    "\<exists>v. calculateCurrentDebt shares totalShares totalAssets = Inr v"
    "\<exists>v. calculateSupplyAssets shares totalShares totalAssets = Inr v"
    "\<exists>v. calculateUserAssets shares totalShares totalAssets = Inr v"
    unfolding calculateBorrowAssets_def calculateCurrentDebt_def
      calculateSupplyAssets_def calculateUserAssets_def
    by (rule guarded)+
  from zero returns show ?thesis by simp
qed


section \<open>The collateral value in loan assets\<close>

text \<open>
  Claim C8.  For every non-negative collateral amount and positive raw price, the
  collateral value in loan assets is the product divided by ten to the power
  \<open>36 + loanDecimals - collateralDecimals\<close>, rounded down: the value \<open>toLoanAssets\<close>
  gives at that scale, and the floor of the quotient.  The scale exists when the
  exponent is not negative.
\<close>

theorem collateral_value_rounds_down:
  assumes "0 \<le> collateral" and "0 < price"
    and "collateralDecimals \<le> 36 + loanDecimals"
  shows "\<exists>loanAssets.
           toLoanAssets collateral price (nat (36 + loanDecimals - collateralDecimals))
             = Inr loanAssets \<and>
           loanAssets = \<lfloor>real_of_int (collateral * price) /
                          10 ^ nat (36 + loanDecimals - collateralDecimals)\<rfloor> \<and>
           collateralValueInLoanToken collateral price loanDecimals collateralDecimals
             = Inr loanAssets"
proof -
  define n where "n = nat (36 + loanDecimals - collateralDecimals)"
  have adj: "parseUnits_one (decimalAdjustment loanDecimals collateralDecimals) = Inr (10 ^ n)"
    using assms(3) by (simp add: parseUnits_one_def decimalAdjustment_def n_def)
  have pos: "(0::int) < 10 ^ n" by simp
  have nn: "0 \<le> collateral * price" using assms by simp
  have d: "bigint_div (collateral * price) (10 ^ n) = Inr ((collateral * price) div 10 ^ n)"
    using nn pos by (rule bigint_div_nonneg)
  have fl: "\<lfloor>real_of_int (collateral * price) / 10 ^ n\<rfloor> = (collateral * price) div 10 ^ n"
    using floor_divide_of_int_eq [of "collateral * price" "10 ^ n", where ?'a = real]
    by simp
  show ?thesis
    unfolding n_def [symmetric]
    using adj d fl
    by (simp add: toLoanAssets_def mulDivDown_def collateralValueInLoanToken_def)
qed

theorem collateral_value_rounds_down_witness:
  "collateralValueInLoanToken 1999 (5 * 10 ^ 23) 6 18 = Inr 999 \<and>
   collateralValueInLoanToken 1000 (10 ^ 36) 18 18 = Inr 1000"
  using collateral_value_rounds_down [of 1999 "5 * 10 ^ 23" 18 6]
        collateral_value_rounds_down [of 1000 "10 ^ 36" 18 18]
  by (simp add: toLoanAssets_def mulDivDown_def)


section \<open>The bounds of a liquidation\<close>

text \<open>
  Claim C4.  \<open>calculateMaxLiquidation\<close> returns, for a non-negative collateral and
  debt and a positive price: \<open>maxRepaidAssets\<close>, half of the debt (the 50% close factor,
  rounded down); and \<open>maxSeizedAssets\<close>, which is \<open>toCollateralAmount\<close> of the repayable
  amount times the incentive 1050/1000 (a constant not below 1, the product rounded down
  to an amount), clamped to the position's collateral, which it therefore never exceeds.
\<close>

theorem calculateMaxLiquidation_bounds:
  assumes "0 \<le> collateral" and "0 \<le> debt" and "0 < price"
    and "collateralDecimals \<le> 36 + loanDecimals"
  shows "\<exists>mx withIncentive seizable.
           calculateMaxLiquidation collateral debt price loanDecimals collateralDecimals lltv
             = Inr mx \<and>
           mulDivDown debt 1 2 = Inr (maxRepaidAssets mx) \<and>
           mulDivDown (maxRepaidAssets mx) liquidationIncentiveMilli 1000 = Inr withIncentive \<and>
           toCollateralAmount withIncentive price (nat (36 + loanDecimals - collateralDecimals))
             = Inr seizable \<and>
           maxSeizedAssets mx = min seizable collateral \<and>
           maxSeizedAssets mx \<le> collateral \<and>
           1000 \<le> liquidationIncentiveMilli"
proof -
  define n where "n = nat (36 + loanDecimals - collateralDecimals)"
  define r where "r = debt div 2"
  define w where "w = (r * 1050) div 1000"
  define s where "s = (w * 10 ^ n) div price"
  have adj: "parseUnits_one (decimalAdjustment loanDecimals collateralDecimals) = Inr (10 ^ n)"
    using assms(4) by (simp add: parseUnits_one_def decimalAdjustment_def n_def)
  have pos: "(0::int) < 10 ^ n" by simp
  have cv: "bigint_div (collateral * price) (10 ^ n) = Inr ((collateral * price) div 10 ^ n)"
    using assms(1,3) pos by (intro bigint_div_nonneg) simp_all
  have r: "bigint_div debt 2 = Inr r"
    using assms(2) by (simp add: bigint_div_nonneg r_def)
  have r0: "0 \<le> r" using assms(2) by (simp add: r_def)
  have w: "bigint_div (r * 1050) 1000 = Inr w"
    using r0 by (simp add: bigint_div_nonneg w_def)
  have w0: "0 \<le> w" using r0 by (simp add: w_def pos_imp_zdiv_nonneg_iff)
  have s: "bigint_div (w * 10 ^ n) price = Inr s"
    using w0 assms(3) by (simp add: bigint_div_nonneg s_def)
  have res: "calculateMaxLiquidation collateral debt price loanDecimals collateralDecimals lltv
      = Inr \<lparr> maxSeizedAssets = min s collateral, maxRepaidAssets = r \<rparr>"
    using adj cv r w s
    by (simp add: calculateMaxLiquidation_def liquidationIncentiveMilli_def min_def)
  show ?thesis
    unfolding n_def [symmetric]
    using res assms(3)
    by (simp add: mulDivDown_def toCollateralAmount_def liquidationIncentiveMilli_def
          r_def w_def s_def)
qed

theorem calculateMaxLiquidation_bounds_witness:
  "calculateMaxLiquidation 1000 1000 (10 ^ 36) 18 18 800000000000000000
     = Inr \<lparr> maxSeizedAssets = 525, maxRepaidAssets = 500 \<rparr> \<and>
   calculateMaxLiquidation 300 1000 (10 ^ 36) 18 18 800000000000000000
     = Inr \<lparr> maxSeizedAssets = 300, maxRepaidAssets = 500 \<rparr>"
  using calculateMaxLiquidation_bounds [of 1000 1000 "10 ^ 36" 18 18 800000000000000000]
        calculateMaxLiquidation_bounds [of 300 1000 "10 ^ 36" 18 18 800000000000000000]
  by (auto simp add: mulDivDown_def toCollateralAmount_def liquidationIncentiveMilli_def)


section \<open>Requests above the bounds are lowered, not refused\<close>

text \<open>
  Claim C3 says that a request above \<open>maxSeize\<close> or \<open>maxRepay\<close> fails with
  \<open>ExceedsMaxLiquidation\<close> and changes nothing.  The script has no such failure: it
  prints a warning, replaces the amount by the maximum and goes on.  The sample request
  asks for 900 of collateral against a bound of 525 and for 800 of debt against a bound
  of 500, and the run ends with an approval of 500 and the call of the market contract
  with 525 seized and 500 shares repaid.
\<close>

theorem exceeding_amounts_counterexample:
  "calculateMaxLiquidation (lq_collateral over_request) 1000 (lq_oraclePrice over_request)
       (lq_loanDecimals over_request) (lq_collateralDecimals over_request) (lq_lltv over_request)
     = Inr \<lparr> maxSeizedAssets = 525, maxRepaidAssets = 500 \<rparr> \<and>
   lq_seizedAssets over_request = Some 900 \<and>
   requestedAmounts over_request \<lparr> maxSeizedAssets = 525, maxRepaidAssets = 500 \<rparr>
     = Inr (Some (900, 800)) \<and>
   liquidatePosition over_request = Liquidated (Some 500) 525 500"
  by (simp add: over_request_def liquidatePosition_def calculateBorrowAssets_def
        collateralValueInLoanToken_def isLiquidatable_def calculateMaxLiquidation_def
        liquidationIncentiveMilli_def
        requestedAmounts_def validateAmounts_def executeLiquidation_def
        parseUnits_one_def decimalAdjustment_def bigint_div_def)

lemma validateAmounts_min:
  "validateAmounts (seize, repay) mx =
     (min seize (maxSeizedAssets mx), min repay (maxRepaidAssets mx))"
  by (simp add: validateAmounts_def min_def)

text \<open>
  Claim C3, as amended.  For every liquidatable position, a requested seize amount or
  repay amount above its bound is lowered to the bound (\<open>maxSeizedAssets\<close>,
  \<open>maxRepaidAssets\<close>) and the run continues with the adjusted amounts: it is the run of
  \<open>executeLiquidation\<close> on the two minima, and when the liquidator's balance covers the
  adjusted repayment and the liquidator confirms, the market contract is called with the
  adjusted seize amount and the shares of the adjusted repayment.
\<close>

theorem liquidatePosition_adjusts_to_max:
  assumes "lq_borrowShares rq \<noteq> 0" and "lq_collateral rq \<noteq> 0"
    and "calculateBorrowAssets (lq_borrowShares rq) (lq_totalBorrowShares rq)
           (lq_totalBorrowAssets rq) = Inr debt"
    and "collateralValueInLoanToken (lq_collateral rq) (lq_oraclePrice rq)
           (lq_loanDecimals rq) (lq_collateralDecimals rq) = Inr collateralValue"
    and "isLiquidatable collateralValue debt (lq_lltv rq) = Inr True"
    and "calculateMaxLiquidation (lq_collateral rq) debt (lq_oraclePrice rq)
           (lq_loanDecimals rq) (lq_collateralDecimals rq) (lq_lltv rq) = Inr mx"
    and "requestedAmounts rq mx = Inr (Some (seize, repay))"
  shows "liquidatePosition rq =
           executeLiquidation rq (min seize (maxSeizedAssets mx), min repay (maxRepaidAssets mx)) \<and>
         (min repay (maxRepaidAssets mx) \<le> lq_liquidatorBalance rq \<and> lq_confirm rq \<and>
          lq_totalBorrowAssets rq \<noteq> 0 \<longrightarrow>
            (\<exists>approval shares.
               bigint_div (min repay (maxRepaidAssets mx) * lq_totalBorrowShares rq)
                 (lq_totalBorrowAssets rq) = Inr shares \<and>
               liquidatePosition rq =
                 Liquidated approval (min seize (maxSeizedAssets mx)) shares))"
proof -
  define s where "s = min seize (maxSeizedAssets mx)"
  define r where "r = min repay (maxRepaidAssets mx)"
  have run: "liquidatePosition rq = executeLiquidation rq (s, r)"
    using assms by (simp add: liquidatePosition_def validateAmounts_min s_def r_def)
  have "\<exists>approval shares.
          bigint_div (r * lq_totalBorrowShares rq) (lq_totalBorrowAssets rq) = Inr shares \<and>
          liquidatePosition rq = Liquidated approval s shares"
    if ok: "r \<le> lq_liquidatorBalance rq" "lq_confirm rq" "lq_totalBorrowAssets rq \<noteq> 0"
  proof -
    obtain shares where sh:
      "bigint_div (r * lq_totalBorrowShares rq) (lq_totalBorrowAssets rq) = Inr shares"
      using ok(3) by (simp add: bigint_div_def)
    show ?thesis
      using ok sh by (simp add: run executeLiquidation_def Let_def)
  qed
  with run show ?thesis unfolding s_def r_def by blast
qed

theorem liquidatePosition_adjusts_to_max_witness:
  "liquidatePosition over_request =
     executeLiquidation over_request (525, 500) \<and>
   (\<exists>approval. liquidatePosition over_request = Liquidated approval 525 500)"
proof -
  let ?mx = "\<lparr> maxSeizedAssets = 525, maxRepaidAssets = 500 \<rparr>"
  have a: "lq_borrowShares over_request \<noteq> 0" "lq_collateral over_request \<noteq> 0"
    by (simp_all add: over_request_def)
  have b: "calculateBorrowAssets (lq_borrowShares over_request)
      (lq_totalBorrowShares over_request) (lq_totalBorrowAssets over_request) = Inr 1000"
    by (simp add: over_request_def calculateBorrowAssets_def bigint_div_def)
  have c: "collateralValueInLoanToken (lq_collateral over_request) (lq_oraclePrice over_request)
      (lq_loanDecimals over_request) (lq_collateralDecimals over_request) = Inr 1000"
    by (simp add: over_request_def collateralValueInLoanToken_def parseUnits_one_def
          decimalAdjustment_def bigint_div_def)
  have d: "isLiquidatable 1000 1000 (lq_lltv over_request) = Inr True"
    by (simp add: over_request_def isLiquidatable_def parseUnits_one_def bigint_div_def)
  have e: "calculateMaxLiquidation (lq_collateral over_request) 1000
      (lq_oraclePrice over_request) (lq_loanDecimals over_request)
      (lq_collateralDecimals over_request) (lq_lltv over_request) = Inr ?mx"
    by (simp add: over_request_def calculateMaxLiquidation_def parseUnits_one_def
          decimalAdjustment_def bigint_div_def liquidationIncentiveMilli_def)
  have f: "requestedAmounts over_request ?mx = Inr (Some (900, 800))"
    by (simp add: over_request_def requestedAmounts_def calculateBorrowAssets_def
          bigint_div_def)
  have g: "lq_liquidatorBalance over_request = 10000" "lq_confirm over_request"
    "lq_totalBorrowAssets over_request = 1000" "lq_totalBorrowShares over_request = 1000"
    by (simp_all add: over_request_def)
  note t = liquidatePosition_adjusts_to_max [OF a b c d e f]
  have h1: "liquidatePosition over_request = executeLiquidation over_request (525, 500)"
    using t [THEN conjunct1] by simp
  have "\<exists>approval shares.
          bigint_div (500 * 1000) 1000 = Inr shares \<and>
          liquidatePosition over_request = Liquidated approval 525 shares"
    using t [THEN conjunct2] g by simp
  then obtain approval shares where sh: "bigint_div (500 * 1000) 1000 = Inr shares"
    and run: "liquidatePosition over_request = Liquidated approval 525 shares"
    by blast
  from sh have "shares = 500" by (simp add: bigint_div_def)
  with run h1 show ?thesis by blast
qed


section \<open>Withdrawals\<close>










section \<open>Supplies\<close>

lemmas supply_defs =
  supplyToMarket_def supplyAmountBigInt_def invalidMarketParameters_def sample_market_def
  expectedShares_def bigint_div_def

text \<open>
  Claim C6 says that the shares minted are the assets when \<open>totalSupplyShares = 0\<close> and
  \<open>mulDivDown(assets, totalSupplyShares, totalSupplyAssets)\<close> otherwise.  The script
  also takes the 1:1 branch when the pool has shares and no assets, where the formula of
  the claim divides by zero: a deposit of 7 into a pool of 5 shares and no assets is
  submitted with 7 expected shares.
\<close>

theorem expected_shares_counterexample:
  "sp_totalSupplyShares drained_deposit = 5 \<and>
   mulDivDown 7 5 0 = Inl DivisionByZero \<and>
   expectedShares 7 0 5 = Inr 7 \<and>
   supplyToMarket drained_deposit = Supplied None 7 7"
  by (simp add: mulDivDown_def drained_deposit_def supply_defs)

text \<open>
  Claim C6, as amended.  For every supply with \<open>assets > 0\<close> that the script carries
  out (the settings are present, the market parameters are valid, the balance covers
  the assets, the user confirms), the shares minted are the assets themselves when
  \<open>totalSupplyShares = 0\<close> or \<open>totalSupplyAssets = 0\<close>, and
  \<open>mulDivDown(assets, totalSupplyShares, totalSupplyAssets)\<close> otherwise; both pool
  totals increase accordingly, by the assets and by the shares; and on an empty market
  the round trip is exact: the assets mint as many shares, and after the supply the
  shares convert back to the assets.
\<close>

theorem supply_expected_shares:
  assumes "sp_morphoAddress rq \<noteq> []" and "sp_marketId rq \<noteq> []"
    and "\<not> invalidMarketParameters (sp_marketParams rq)"
    and "sp_supplyAmount rq = Some assets" and "0 < assets"
    and "0 \<le> sp_totalSupplyAssets rq" and "0 \<le> sp_totalSupplyShares rq"
    and "assets \<le> sp_userBalance rq" and "sp_confirm rq"
  shows "\<exists>approval shares pool.
           supplyToMarket rq = Supplied approval assets shares \<and>
           (if sp_totalSupplyShares rq = 0 \<or> sp_totalSupplyAssets rq = 0
            then shares = assets
            else mulDivDown assets (sp_totalSupplyShares rq) (sp_totalSupplyAssets rq)
                   = Inr shares) \<and>
           0 \<le> shares \<and>
           pool = supply_totals \<lparr> totalSupplyAssets = sp_totalSupplyAssets rq,
                                   totalSupplyShares = sp_totalSupplyShares rq \<rparr>
                    assets shares \<and>
           totalSupplyAssets pool = sp_totalSupplyAssets rq + assets \<and>
           totalSupplyShares pool = sp_totalSupplyShares rq + shares \<and>
           (\<exists>minted first.
              expectedShares assets (totalSupplyAssets empty_pool)
                (totalSupplyShares empty_pool) = Inr minted \<and>
              first = supply_totals empty_pool assets minted \<and>
              totalSupplyAssets first = assets \<and> totalSupplyShares first = assets \<and>
              calculateSupplyAssets minted (totalSupplyShares first) (totalSupplyAssets first)
                = Inr assets)"
proof -
  have amount: "supplyAmountBigInt rq = assets"
    using assms(4) by (simp add: supplyAmountBigInt_def)
  have trip: "\<exists>minted first.
      expectedShares assets (totalSupplyAssets empty_pool) (totalSupplyShares empty_pool)
        = Inr minted \<and>
      first = supply_totals empty_pool assets minted \<and>
      totalSupplyAssets first = assets \<and> totalSupplyShares first = assets \<and>
      calculateSupplyAssets minted (totalSupplyShares first) (totalSupplyAssets first)
        = Inr assets"
    using assms(5)
    by (simp add: expectedShares_def empty_pool_def supply_totals_def
          calculateSupplyAssets_def bigint_div_nonneg)
  have run: "supplyToMarket rq =
      Supplied (if sp_allowance rq < assets then Some assets else None) assets shares"
    if "expectedShares assets (sp_totalSupplyAssets rq) (sp_totalSupplyShares rq) = Inr shares"
    for shares
    using that assms(1-4,8,9) by (simp add: supplyToMarket_def amount)
  show ?thesis
  proof (cases "sp_totalSupplyShares rq = 0 \<or> sp_totalSupplyAssets rq = 0")
    case True
    then have "expectedShares assets (sp_totalSupplyAssets rq) (sp_totalSupplyShares rq)
        = Inr assets"
      by (auto simp add: expectedShares_def)
    from run [OF this] True assms(5) trip show ?thesis
      by (simp add: supply_totals_def)
  next
    case False
    then have pos: "0 < sp_totalSupplyShares rq" "0 < sp_totalSupplyAssets rq"
      using assms(6,7) by simp_all
    define s where "s = (assets * sp_totalSupplyShares rq) div sp_totalSupplyAssets rq"
    have s0: "0 \<le> s"
      using assms(5) pos by (simp add: s_def pos_imp_zdiv_nonneg_iff)
    have "bigint_div (assets * sp_totalSupplyShares rq) (sp_totalSupplyAssets rq) = Inr s"
      using assms(5) pos by (simp add: bigint_div_nonneg s_def)
    then have "expectedShares assets (sp_totalSupplyAssets rq) (sp_totalSupplyShares rq)
        = Inr s"
      using pos by (simp add: expectedShares_def)
    from run [OF this] False pos s0 trip show ?thesis
      by (simp add: supply_totals_def mulDivDown_def s_def)
  qed
qed

theorem supply_expected_shares_witness:
  "supplyToMarket second_deposit = Supplied (Some 100) 100 30 \<and>
   mulDivDown 100 100 333 = Inr 30 \<and>
   calculateSupplyAssets 100 100 100 = Inr 100"
proof -
  have "\<exists>approval shares pool.
           supplyToMarket second_deposit = Supplied approval 100 shares \<and>
           (if sp_totalSupplyShares second_deposit = 0 \<or> sp_totalSupplyAssets second_deposit = 0
            then shares = 100
            else mulDivDown 100 (sp_totalSupplyShares second_deposit)
                   (sp_totalSupplyAssets second_deposit) = Inr shares) \<and>
           0 \<le> shares \<and>
           pool = supply_totals \<lparr> totalSupplyAssets = sp_totalSupplyAssets second_deposit,
                                   totalSupplyShares = sp_totalSupplyShares second_deposit \<rparr>
                    100 shares \<and>
           totalSupplyAssets pool = sp_totalSupplyAssets second_deposit + 100 \<and>
           totalSupplyShares pool = sp_totalSupplyShares second_deposit + shares \<and>
           (\<exists>minted first.
              expectedShares 100 (totalSupplyAssets empty_pool)
                (totalSupplyShares empty_pool) = Inr minted \<and>
              first = supply_totals empty_pool 100 minted \<and>
              totalSupplyAssets first = 100 \<and> totalSupplyShares first = 100 \<and>
              calculateSupplyAssets minted (totalSupplyShares first) (totalSupplyAssets first)
                = Inr 100)"
    by (rule supply_expected_shares)
       (simp_all add: second_deposit_def sample_market_def invalidMarketParameters_def)
  then have "\<exists>minted.
      expectedShares 100 0 0 = Inr minted \<and> calculateSupplyAssets minted 100 100 = Inr 100"
    by (auto simp add: empty_pool_def supply_totals_def)
  then have trip: "calculateSupplyAssets 100 100 100 = Inr 100"
    by (auto simp add: expectedShares_def)
  have run: "supplyToMarket second_deposit = Supplied (Some 100) 100 30"
    by (simp add: second_deposit_def supply_defs)
  from run trip show ?thesis by (simp add: mulDivDown_def)
qed


section \<open>The health factor grows with the collateral\<close>









end
